theory Spec2Isabelle
  imports Main "HOL-Library.Multiset"
begin

section \<open>Data model of the product service\<close>

text \<open>
  The inventory ledger lives in
  \<^verbatim>\<open>apps/product-service/src/inventory/inventory.service.ts\<close>. The service talks to two
  Prisma tables (\<^verbatim>\<open>productInventory\<close>, \<^verbatim>\<open>inventoryTransaction\<close>) and to the
  \<^verbatim>\<open>EventService\<close>. TypeScript numbers that hold stock counts are modelled as
  unbounded integers; nothing in the service restricts their sign.
\<close>

type_synonym productId = string

record ProductInventory =
  productId :: productId
  quantity :: int
  reserved :: int
  available :: int
  lowStockThreshold :: int
  isTracked :: bool

datatype TransactionType = RESTOCK | ADJUSTMENT | RESERVE | RELEASE | SALE

record InventoryTransaction =
  txProductId :: productId
  txType :: TransactionType
  txQuantity :: int
  txReason :: string
  txReference :: "string option"

text \<open>
  The payloads handed to \<^verbatim>\<open>publishInventoryUpdated\<close> and \<^verbatim>\<open>publishLowStockAlert\<close>;
  the product's sku and name and the timestamp are left out.
\<close>

datatype Event =
  InventoryUpdated productId int int int
    \<comment> \<open>productId, previousQuantity, newQuantity, available\<close>
| LowStockAlert productId int int
    \<comment> \<open>productId, currentQuantity, threshold\<close>

record ServiceState =
  productInventory :: "ProductInventory list"
  inventoryTransaction :: "InventoryTransaction list"
  eventCalls :: "Event list"

subsection \<open>Error messages\<close>

text \<open>
  An error message is a string literal or a template literal. A template literal is kept as
  its pieces, text and interpolated numbers in order:
  \<^verbatim>\<open>`Available: ${a}, Requested: ${b}`\<close> is
  \<open>[Lit ''Available: '', Num a, Lit '', Requested: '', Num b]\<close>. How a number is printed is
  JavaScript's own conversion (decimal digits below 1e21, exponent form from there
  on) and is not interpreted here.
\<close>

datatype MessagePart = Lit string | Num int

type_synonym message = "MessagePart list"

text \<open>
  What a call of the service can reject with: the two Nest exceptions it throws itself, and
  the two errors of the Prisma client that pass through it uncaught.
\<close>

datatype HttpException =
  NotFoundException message
| BadRequestException message
| PrismaClientKnownRequestError
| PrismaClientValidationError

subsection \<open>Request bodies\<close>

text \<open>
  The request types of the service are TypeScript interfaces, so a body reaches the service
  unvalidated. An optional field of \<^verbatim>\<open>UpdateInventoryDto\<close> is \<^verbatim>\<open>undefined\<close> when the
  JSON body leaves it out, \<^verbatim>\<open>null\<close> when the body says so, or a value.
\<close>

datatype 'a optional = Undefined | Null | Val 'a

record UpdateInventoryDto =
  dtoQuantity :: "int optional"
  dtoReserved :: "int optional"
  dtoLowStockThreshold :: "int optional"
  dtoIsTracked :: "bool optional"

text \<open>\<^verbatim>\<open>ReserveInventoryDto\<close> and \<^verbatim>\<open>ReleaseInventoryDto\<close> have the same three fields.\<close>

record ReserveInventoryDto =
  reqProductId :: productId
  reqQuantity :: int
  reqReference :: "string option"

text \<open>\<^verbatim>\<open>a ?? b\<close>: \<^verbatim>\<open>b\<close> when \<^verbatim>\<open>a\<close> is \<^verbatim>\<open>undefined\<close> or \<^verbatim>\<open>null\<close>.\<close>

definition nullish :: "'a optional \<Rightarrow> 'a \<Rightarrow> 'a" where
  "nullish v d = (case v of Undefined \<Rightarrow> d | Null \<Rightarrow> d | Val x \<Rightarrow> x)"

text \<open>The same for a parameter that is either \<^verbatim>\<open>undefined\<close> or a value.\<close>

definition orElse :: "'a option \<Rightarrow> 'a \<Rightarrow> 'a" where
  "orElse v d = (case v of Some x \<Rightarrow> x | None \<Rightarrow> d)"

subsection \<open>The Prisma calls the service makes\<close>

text \<open>\<^verbatim>\<open>prisma.productInventory.findUnique({ where: { productId } })\<close>\<close>

fun findUnique :: "productId \<Rightarrow> ProductInventory list \<Rightarrow> ProductInventory option" where
  "findUnique pid [] = None"
| "findUnique pid (r # rs) = (if productId r = pid then Some r else findUnique pid rs)"

text \<open>
  The \<^verbatim>\<open>data\<close> argument of \<^verbatim>\<open>prisma.productInventory.update\<close>. Prisma leaves a column
  alone when its field is \<^verbatim>\<open>undefined\<close> or absent.
\<close>

record InventoryData =
  dataQuantity :: "int optional"
  dataReserved :: "int optional"
  dataAvailable :: "int optional"
  dataLowStockThreshold :: "int optional"
  dataIsTracked :: "bool optional"

text \<open>
  Modelled from the spec: the Prisma schema of \<^verbatim>\<open>ProductInventory\<close> is not among the
  sources. The data model of the spec gives every column of the row a value (three integers,
  an integer threshold, a boolean flag), so the columns are required ones, and the Prisma
  client refuses \<^verbatim>\<open>null\<close> for a required column when it validates the arguments, before
  it sends any query.
\<close>

definition validData :: "InventoryData \<Rightarrow> bool" where
  "validData d \<longleftrightarrow>
     dataQuantity d \<noteq> Null \<and> dataReserved d \<noteq> Null \<and> dataAvailable d \<noteq> Null
       \<and> dataLowStockThreshold d \<noteq> Null \<and> dataIsTracked d \<noteq> Null"

definition applyData :: "InventoryData \<Rightarrow> ProductInventory \<Rightarrow> ProductInventory" where
  "applyData d r =
     r\<lparr> quantity := nullish (dataQuantity d) (quantity r),
        reserved := nullish (dataReserved d) (reserved r),
        available := nullish (dataAvailable d) (available r),
        lowStockThreshold := nullish (dataLowStockThreshold d) (lowStockThreshold r),
        isTracked := nullish (dataIsTracked d) (isTracked r) \<rparr>"

fun updateRow ::
  "productId \<Rightarrow> InventoryData \<Rightarrow> ProductInventory list
     \<Rightarrow> (ProductInventory \<times> ProductInventory list) option" where
  "updateRow pid d [] = None"
| "updateRow pid d (r # rs) =
     (if productId r = pid then Some (applyData d r, applyData d r # rs)
      else (case updateRow pid d rs of
              None \<Rightarrow> None
            | Some (u, rs') \<Rightarrow> Some (u, r # rs')))"

text \<open>
  \<^verbatim>\<open>prisma.productInventory.update({ where: { productId }, data })\<close> returns the updated
  row. It rejects with a validation error when the data is refused, and with a request error
  when no row has that \<^verbatim>\<open>productId\<close>.
\<close>

definition productInventoryUpdate ::
  "productId \<Rightarrow> InventoryData \<Rightarrow> ProductInventory list
     \<Rightarrow> HttpException + (ProductInventory \<times> ProductInventory list)" where
  "productInventoryUpdate pid d rows =
     (if \<not> validData d then Inl PrismaClientValidationError
      else (case updateRow pid d rows of
              None \<Rightarrow> Inl PrismaClientKnownRequestError
            | Some result \<Rightarrow> Inr result))"

text \<open>\<^verbatim>\<open>prisma.inventoryTransaction.create({ data })\<close>\<close>

definition inventoryTransactionCreate :: "InventoryTransaction \<Rightarrow> ServiceState \<Rightarrow> ServiceState" where
  "inventoryTransactionCreate t s = s\<lparr> inventoryTransaction := inventoryTransaction s @ [t] \<rparr>"

text \<open>A call of one of the \<^verbatim>\<open>EventService.publish...\<close> methods, which never rejects.\<close>

definition publishCall :: "Event \<Rightarrow> ServiceState \<Rightarrow> ServiceState" where
  "publishCall e s = s\<lparr> eventCalls := eventCalls s @ [e] \<rparr>"

section \<open>InventoryService\<close>

definition getInventory :: "productId \<Rightarrow> ServiceState \<Rightarrow> HttpException + ProductInventory" where
  "getInventory pid s =
     (case findUnique pid (productInventory s) of
        None \<Rightarrow> Inl (NotFoundException [Lit ''Inventory not found for this product''])
      | Some inventory \<Rightarrow> Inr inventory)"

text \<open>
  In \<^verbatim>\<open>updateInventory\<close> the new quantity and reserved amount are resolved with
  \<^verbatim>\<open>??\<close>, which takes \<^verbatim>\<open>null\<close> for an absent field, while the test that guards the
  transaction is \<^verbatim>\<open>quantity !== undefined && quantity !== previousQuantity\<close>, which
  \<^verbatim>\<open>null\<close> passes. There \<^verbatim>\<open>null > previousQuantity\<close> and
  \<^verbatim>\<open>null - previousQuantity\<close> read \<^verbatim>\<open>null\<close> as 0.
\<close>

definition updateInventory ::
  "productId \<Rightarrow> UpdateInventoryDto \<Rightarrow> ServiceState
     \<Rightarrow> (HttpException + ProductInventory) \<times> ServiceState" where
  "updateInventory pid dto s =
     (case getInventory pid s of
        Inl e \<Rightarrow> (Inl e, s)
      | Inr inventory \<Rightarrow>
          let previousQuantity = quantity inventory;
              quantity' = nullish (dtoQuantity dto) (quantity inventory);
              reserved' = nullish (dtoReserved dto) (reserved inventory);
              available' = quantity' - reserved'
          in if available' < 0
             then (Inl (BadRequestException [Lit ''Available quantity cannot be negative'']), s)
             else
               (case productInventoryUpdate pid
                       \<lparr> dataQuantity = Val quantity', dataReserved = Val reserved',
                         dataAvailable = Val available',
                         dataLowStockThreshold = dtoLowStockThreshold dto,
                         dataIsTracked = dtoIsTracked dto \<rparr>
                       (productInventory s) of
                  Inl e \<Rightarrow> (Inl e, s)
                | Inr (updatedInventory, rows) \<Rightarrow>
                    let s1 = s\<lparr> productInventory := rows \<rparr>;
                        s2 = (case dtoQuantity dto of
                                Undefined \<Rightarrow> s1
                              | Null \<Rightarrow>
                                  inventoryTransactionCreate
                                    \<lparr> txProductId = pid,
                                      txType = (if 0 > previousQuantity then RESTOCK
                                                else ADJUSTMENT),
                                      txQuantity = 0 - previousQuantity,
                                      txReason = ''Manual inventory update'',
                                      txReference = None \<rparr> s1
                              | Val q \<Rightarrow>
                                  if q \<noteq> previousQuantity
                                  then inventoryTransactionCreate
                                         \<lparr> txProductId = pid,
                                           txType = (if q > previousQuantity then RESTOCK
                                                     else ADJUSTMENT),
                                           txQuantity = q - previousQuantity,
                                           txReason = ''Manual inventory update'',
                                           txReference = None \<rparr> s1
                                  else s1);
                        s3 = publishCall
                               (InventoryUpdated pid previousQuantity quantity' available') s2;
                        s4 = (if available' \<le> lowStockThreshold updatedInventory
                                 \<and> isTracked updatedInventory
                              then publishCall
                                     (LowStockAlert pid available'
                                        (lowStockThreshold updatedInventory)) s3
                              else s3)
                    in (Inr updatedInventory, s4)))"

text \<open>
  \<^verbatim>\<open>`Insufficient inventory. Available: ${inventory.available}, Requested: ${reserveDto.quantity}`\<close>
\<close>

definition insufficientMessage :: "int \<Rightarrow> int \<Rightarrow> message" where
  "insufficientMessage avail requested =
     [Lit ''Insufficient inventory. Available: '', Num avail,
      Lit '', Requested: '', Num requested]"

definition reserveInventory ::
  "ReserveInventoryDto \<Rightarrow> ServiceState \<Rightarrow> (HttpException + ProductInventory) \<times> ServiceState" where
  "reserveInventory reserveDto s =
     (case getInventory (reqProductId reserveDto) s of
        Inl e \<Rightarrow> (Inl e, s)
      | Inr inventory \<Rightarrow>
          if available inventory < reqQuantity reserveDto
          then (Inl (BadRequestException
                       (insufficientMessage (available inventory) (reqQuantity reserveDto))), s)
          else
            (case productInventoryUpdate (reqProductId reserveDto)
                    \<lparr> dataQuantity = Undefined,
                      dataReserved = Val (reserved inventory + reqQuantity reserveDto),
                      dataAvailable = Val (available inventory - reqQuantity reserveDto),
                      dataLowStockThreshold = Undefined, dataIsTracked = Undefined \<rparr>
                    (productInventory s) of
               Inl e \<Rightarrow> (Inl e, s)
             | Inr (updatedInventory, rows) \<Rightarrow>
                 (Inr updatedInventory,
                  inventoryTransactionCreate
                    \<lparr> txProductId = reqProductId reserveDto, txType = RESERVE,
                      txQuantity = - reqQuantity reserveDto,
                      txReason = ''Inventory reservation'',
                      txReference = reqReference reserveDto \<rparr>
                    (s\<lparr> productInventory := rows \<rparr>))))"

text \<open>
  \<^verbatim>\<open>`Cannot release more than reserved. Reserved: ${inventory.reserved}, Requested: ${releaseDto.quantity}`\<close>
\<close>

definition releaseMessage :: "int \<Rightarrow> int \<Rightarrow> message" where
  "releaseMessage res requested =
     [Lit ''Cannot release more than reserved. Reserved: '', Num res,
      Lit '', Requested: '', Num requested]"

definition releaseInventory ::
  "ReserveInventoryDto \<Rightarrow> ServiceState \<Rightarrow> (HttpException + ProductInventory) \<times> ServiceState" where
  "releaseInventory releaseDto s =
     (case getInventory (reqProductId releaseDto) s of
        Inl e \<Rightarrow> (Inl e, s)
      | Inr inventory \<Rightarrow>
          if reserved inventory < reqQuantity releaseDto
          then (Inl (BadRequestException
                       (releaseMessage (reserved inventory) (reqQuantity releaseDto))), s)
          else
            (case productInventoryUpdate (reqProductId releaseDto)
                    \<lparr> dataQuantity = Undefined,
                      dataReserved = Val (reserved inventory - reqQuantity releaseDto),
                      dataAvailable = Val (available inventory + reqQuantity releaseDto),
                      dataLowStockThreshold = Undefined, dataIsTracked = Undefined \<rparr>
                    (productInventory s) of
               Inl e \<Rightarrow> (Inl e, s)
             | Inr (updatedInventory, rows) \<Rightarrow>
                 (Inr updatedInventory,
                  inventoryTransactionCreate
                    \<lparr> txProductId = reqProductId releaseDto, txType = RELEASE,
                      txQuantity = reqQuantity releaseDto,
                      txReason = ''Inventory release'',
                      txReference = reqReference releaseDto \<rparr>
                    (s\<lparr> productInventory := rows \<rparr>))))"

definition deductInventory ::
  "productId \<Rightarrow> int \<Rightarrow> string option \<Rightarrow> ServiceState
     \<Rightarrow> (HttpException + ProductInventory) \<times> ServiceState" where
  "deductInventory pid q reference s =
     (case getInventory pid s of
        Inl e \<Rightarrow> (Inl e, s)
      | Inr inventory \<Rightarrow>
          let deductFromReserved = min (reserved inventory) q;
              deductFromAvailable = q - deductFromReserved
          in if deductFromAvailable > available inventory
             then (Inl (BadRequestException [Lit ''Insufficient inventory'']), s)
             else
               (case productInventoryUpdate pid
                       \<lparr> dataQuantity = Val (quantity inventory - q),
                         dataReserved = Val (reserved inventory - deductFromReserved),
                         dataAvailable = Val (available inventory - deductFromAvailable),
                         dataLowStockThreshold = Undefined, dataIsTracked = Undefined \<rparr>
                       (productInventory s) of
                  Inl e \<Rightarrow> (Inl e, s)
                | Inr (updatedInventory, rows) \<Rightarrow>
                    let s1 = inventoryTransactionCreate
                               \<lparr> txProductId = pid, txType = SALE, txQuantity = - q,
                                 txReason = ''Inventory deduction for order'',
                                 txReference = reference \<rparr>
                               (s\<lparr> productInventory := rows \<rparr>);
                        s2 = (if available updatedInventory \<le> lowStockThreshold updatedInventory
                                 \<and> isTracked updatedInventory
                              then publishCall
                                     (LowStockAlert pid (available updatedInventory)
                                        (lowStockThreshold updatedInventory)) s1
                              else s1)
                    in (Inr updatedInventory, s2)))"

text \<open>
  \<^verbatim>\<open>getLowStockProducts(threshold?)\<close>: the query keeps tracked rows whose
  \<^verbatim>\<open>available\<close> is at most \<^verbatim>\<open>threshold ?? lowStockThreshold\<close>, ordered by
  \<^verbatim>\<open>available\<close> ascending; the result is then filtered in memory.
\<close>

definition getLowStockProducts :: "int option \<Rightarrow> ServiceState \<Rightarrow> ProductInventory list" where
  "getLowStockProducts threshold s =
     (let products =
            sort_key available
              (filter (\<lambda>r. isTracked r \<and> available r \<le> orElse threshold (lowStockThreshold r))
                 (productInventory s))
      in filter (\<lambda>inv. available inv \<le> lowStockThreshold inv) products)"

subsection \<open>Sequences of ledger calls on one product\<close>

datatype LedgerCall =
  UpdateCall UpdateInventoryDto
| ReserveCall int "string option"
| ReleaseCall int "string option"
| DeductCall int "string option"

fun ledgerCall ::
  "productId \<Rightarrow> LedgerCall \<Rightarrow> ServiceState
     \<Rightarrow> (HttpException + ProductInventory) \<times> ServiceState" where
  "ledgerCall pid (UpdateCall dto) s = updateInventory pid dto s"
| "ledgerCall pid (ReserveCall q reference) s =
     reserveInventory \<lparr> reqProductId = pid, reqQuantity = q, reqReference = reference \<rparr> s"
| "ledgerCall pid (ReleaseCall q reference) s =
     releaseInventory \<lparr> reqProductId = pid, reqQuantity = q, reqReference = reference \<rparr> s"
| "ledgerCall pid (DeductCall q reference) s = deductInventory pid q reference s"

text \<open>The state a sequence of calls leaves behind; a call that fails is followed by the next one.\<close>

fun ledgerCalls :: "productId \<Rightarrow> LedgerCall list \<Rightarrow> ServiceState \<Rightarrow> ServiceState" where
  "ledgerCalls pid [] s = s"
| "ledgerCalls pid (c # cs) s = ledgerCalls pid cs (snd (ledgerCall pid c s))"

text \<open>The invariant of the data model: \<open>available = quantity - reserved\<close>, nothing negative.\<close>

definition ledgerInvariant :: "ProductInventory \<Rightarrow> bool" where
  "ledgerInvariant r \<longleftrightarrow>
     available r = quantity r - reserved r \<and> 0 \<le> quantity r \<and> 0 \<le> reserved r \<and> 0 \<le> available r"

text \<open>Calls in which every amount that is supplied is a number and is not negative.\<close>

fun nonNegativeField :: "int optional \<Rightarrow> bool" where
  "nonNegativeField Undefined = True"
| "nonNegativeField Null = True"
| "nonNegativeField (Val n) = (0 \<le> n)"

fun nonNegativeCall :: "LedgerCall \<Rightarrow> bool" where
  "nonNegativeCall (UpdateCall dto) =
     (nonNegativeField (dtoQuantity dto) \<and> nonNegativeField (dtoReserved dto))"
| "nonNegativeCall (ReserveCall q reference) = (0 \<le> q)"
| "nonNegativeCall (ReleaseCall q reference) = (0 \<le> q)"
| "nonNegativeCall (DeductCall q reference) = (0 \<le> q)"

section \<open>EventService\<close>

subsection \<open>The publisher of the user service\<close>

text \<open>
  \<^verbatim>\<open>publishEvent(eventType, data, retries = 0)\<close> runs its \<^verbatim>\<open>try\<close> block once per call.
  What the broker does is the environment: for the call made with a given \<^verbatim>\<open>retries\<close>, either
  \<^verbatim>\<open>ensureConnection()\<close> resolves to false, or \<^verbatim>\<open>channel.publish\<close> returns a boolean, or
  something in the block throws. Every outcome but \<^verbatim>\<open>published === true\<close> ends in the
  \<^verbatim>\<open>catch\<close> block.
\<close>

datatype AttemptOutcome =
  ConnectionUnavailable
| ChannelPublish bool
| ThrewError

definition attemptSucceeds :: "AttemptOutcome \<Rightarrow> bool" where
  "attemptSucceeds outcome =
     (case outcome of
        ConnectionUnavailable \<Rightarrow> False
      | ChannelPublish published \<Rightarrow> published
      | ThrewError \<Rightarrow> False)"

text \<open>What a call does, in order: runs of the \<^verbatim>\<open>try\<close> block and waits in milliseconds.\<close>

datatype PublisherAction = Attempt nat | Delay nat

definition maxRetries :: nat where
  "maxRetries = 3"

definition retryDelay :: nat where
  "retryDelay = 5000"

function publishEvent :: "(nat \<Rightarrow> AttemptOutcome) \<Rightarrow> nat \<Rightarrow> bool \<times> PublisherAction list" where
  "publishEvent env retries =
     (if attemptSucceeds (env retries) then (True, [Attempt retries])
      else if retries < maxRetries
      then (case publishEvent env (retries + 1) of
              (result, actions) \<Rightarrow> (result, Attempt retries # Delay retryDelay # actions))
      else (False, [Attempt retries]))"
  by pat_completeness auto
termination
  by (relation "measure (\<lambda>(env, retries). maxRetries - retries)") auto

subsection \<open>The publisher of the product service\<close>

text \<open>
  \<^verbatim>\<open>publish(routingKey, data)\<close> returns false at once when the service is not connected or
  has no channel; otherwise it calls \<^verbatim>\<open>channel.publish\<close> once, ignores the value it returns
  and reports false only when the call throws.
\<close>

datatype ChannelCall = Returned bool | Threw

definition publish :: "bool \<Rightarrow> bool \<Rightarrow> ChannelCall \<Rightarrow> bool \<times> PublisherAction list" where
  "publish isConnected hasChannel outcome =
     (if \<not> isConnected \<or> \<not> hasChannel then (False, [])
      else (case outcome of
              Returned published \<Rightarrow> (True, [Attempt 0])
            | Threw \<Rightarrow> (False, [Attempt 0])))"

fun isAttempt :: "PublisherAction \<Rightarrow> bool" where
  "isAttempt (Attempt n) = True"
| "isAttempt (Delay ms) = False"

subsection \<open>A concrete ledger\<close>

text \<open>One tracked product with 100 units on hand, none reserved, and a threshold of 10.\<close>

definition exampleRow :: ProductInventory where
  "exampleRow = \<lparr> productId = ''p1'', quantity = 100, reserved = 0, available = 100,
                  lowStockThreshold = 10, isTracked = True \<rparr>"

definition exampleState :: ServiceState where
  "exampleState = \<lparr> productInventory = [exampleRow], inventoryTransaction = [], eventCalls = [] \<rparr>"

section \<open>Properties\<close>

subsection \<open>What each ledger operation does to a product that has an inventory row\<close>

lemma findUnique_productId: "findUnique pid rows = Some r \<Longrightarrow> productId r = pid"
  by (induction rows) (auto split: if_splits)

lemma productId_applyData: "productId (applyData d r) = productId r"
  by (simp add: applyData_def)

lemma updateRow_found:
  "findUnique pid rows = Some ivt \<Longrightarrow>
     \<exists>rows'. updateRow pid d rows = Some (applyData d ivt, rows')
        \<and> findUnique pid rows' = Some (applyData d ivt)
        \<and> length rows' = length rows"
  by (induction rows) (auto simp: productId_applyData split: if_splits)

lemma productInventoryUpdate_found:
  assumes "findUnique pid rows = Some ivt"
    and "validData d"
  shows "\<exists>rows'. productInventoryUpdate pid d rows = Inr (applyData d ivt, rows')
           \<and> findUnique pid rows' = Some (applyData d ivt)"
  using updateRow_found [OF assms(1), of d] assms(2)
  by (auto simp: productInventoryUpdate_def)

lemma getInventory_found:
  "findUnique pid (productInventory s) = Some ivt \<Longrightarrow> getInventory pid s = Inr ivt"
  by (simp add: getInventory_def)

lemma deductInventory_fails:
  assumes "findUnique pid (productInventory s) = Some ivt"
    and "q - min (reserved ivt) q > available ivt"
  shows "deductInventory pid q ref s =
           (Inl (BadRequestException [Lit ''Insufficient inventory'']), s)"
  using assms by (simp add: deductInventory_def getInventory_found Let_def)

lemma deductInventory_succeeds:
  assumes "findUnique pid (productInventory s) = Some ivt"
    and "\<not> q - min (reserved ivt) q > available ivt"
  shows "\<exists>rows'. deductInventory pid q ref s =
           (Inr (ivt\<lparr> quantity := quantity ivt - q,
                      reserved := reserved ivt - min (reserved ivt) q,
                      available := available ivt - (q - min (reserved ivt) q) \<rparr>),
            s\<lparr> productInventory := rows',
               inventoryTransaction := inventoryTransaction s @
                 [\<lparr> txProductId = pid, txType = SALE, txQuantity = - q,
                    txReason = ''Inventory deduction for order'', txReference = ref \<rparr>],
               eventCalls := eventCalls s @
                 (if available ivt - (q - min (reserved ivt) q) \<le> lowStockThreshold ivt \<and> isTracked ivt
                  then [LowStockAlert pid (available ivt - (q - min (reserved ivt) q)) (lowStockThreshold ivt)]
                  else []) \<rparr>)
          \<and> findUnique pid rows' =
              Some (ivt\<lparr> quantity := quantity ivt - q,
                      reserved := reserved ivt - min (reserved ivt) q,
                      available := available ivt - (q - min (reserved ivt) q) \<rparr>)"
proof -
  let ?d = "\<lparr> dataQuantity = Val (quantity ivt - q),
              dataReserved = Val (reserved ivt - min (reserved ivt) q),
              dataAvailable = Val (available ivt - (q - min (reserved ivt) q)),
              dataLowStockThreshold = Undefined, dataIsTracked = Undefined \<rparr>"
  have v: "validData ?d" by (simp add: validData_def)
  from productInventoryUpdate_found [OF assms(1) v]
  obtain rows' where u: "productInventoryUpdate pid ?d (productInventory s) = Inr (applyData ?d ivt, rows')"
    and f: "findUnique pid rows' = Some (applyData ?d ivt)" by blast
  have a: "applyData ?d ivt = ivt\<lparr> quantity := quantity ivt - q,
                      reserved := reserved ivt - min (reserved ivt) q,
                      available := available ivt - (q - min (reserved ivt) q) \<rparr>"
    by (simp add: applyData_def nullish_def)
  show ?thesis
    using assms u f unfolding a
    by (intro exI [of _ rows'])
       (simp add: deductInventory_def getInventory_found Let_def
          inventoryTransactionCreate_def publishCall_def)
qed

lemma updateInventory_fails:
  assumes "findUnique pid (productInventory s) = Some ivt"
    and "nullish (dtoQuantity dto) (quantity ivt) - nullish (dtoReserved dto) (reserved ivt) < 0"
  shows "updateInventory pid dto s =
           (Inl (BadRequestException [Lit ''Available quantity cannot be negative'']), s)"
  using assms by (simp add: updateInventory_def getInventory_found Let_def)

lemma updateInventory_refused:
  assumes "findUnique pid (productInventory s) = Some ivt"
    and "\<not> nullish (dtoQuantity dto) (quantity ivt) - nullish (dtoReserved dto) (reserved ivt) < 0"
    and "dtoLowStockThreshold dto = Null \<or> dtoIsTracked dto = Null"
  shows "updateInventory pid dto s = (Inl PrismaClientValidationError, s)"
  using assms
  by (auto simp: updateInventory_def getInventory_found Let_def productInventoryUpdate_def
        validData_def)

lemma updateInventory_succeeds:
  assumes "findUnique pid (productInventory s) = Some ivt"
    and "\<not> nullish (dtoQuantity dto) (quantity ivt) - nullish (dtoReserved dto) (reserved ivt) < 0"
    and "dtoLowStockThreshold dto \<noteq> Null" and "dtoIsTracked dto \<noteq> Null"
  shows "\<exists>rows'. updateInventory pid dto s =
           (Inr (ivt\<lparr> quantity := nullish (dtoQuantity dto) (quantity ivt),
                      reserved := nullish (dtoReserved dto) (reserved ivt),
                      available := nullish (dtoQuantity dto) (quantity ivt)
                                     - nullish (dtoReserved dto) (reserved ivt),
                      lowStockThreshold := nullish (dtoLowStockThreshold dto) (lowStockThreshold ivt),
                      isTracked := nullish (dtoIsTracked dto) (isTracked ivt) \<rparr>),
            s\<lparr> productInventory := rows',
               inventoryTransaction := inventoryTransaction s @
                 (case dtoQuantity dto of
                    Undefined \<Rightarrow> []
                  | Null \<Rightarrow>
                      [\<lparr> txProductId = pid,
                         txType = (if 0 > quantity ivt then RESTOCK else ADJUSTMENT),
                         txQuantity = 0 - quantity ivt,
                         txReason = ''Manual inventory update'', txReference = None \<rparr>]
                  | Val q \<Rightarrow>
                      if q \<noteq> quantity ivt
                      then [\<lparr> txProductId = pid,
                              txType = (if q > quantity ivt then RESTOCK else ADJUSTMENT),
                              txQuantity = q - quantity ivt,
                              txReason = ''Manual inventory update'', txReference = None \<rparr>]
                      else []),
               eventCalls := eventCalls s @
                 InventoryUpdated pid (quantity ivt) (nullish (dtoQuantity dto) (quantity ivt))
                   (nullish (dtoQuantity dto) (quantity ivt)
                      - nullish (dtoReserved dto) (reserved ivt)) #
                 (if nullish (dtoQuantity dto) (quantity ivt)
                       - nullish (dtoReserved dto) (reserved ivt)
                       \<le> nullish (dtoLowStockThreshold dto) (lowStockThreshold ivt)
                     \<and> nullish (dtoIsTracked dto) (isTracked ivt)
                  then [LowStockAlert pid
                          (nullish (dtoQuantity dto) (quantity ivt)
                             - nullish (dtoReserved dto) (reserved ivt))
                          (nullish (dtoLowStockThreshold dto) (lowStockThreshold ivt))]
                  else []) \<rparr>)
          \<and> findUnique pid rows' =
              Some (ivt\<lparr> quantity := nullish (dtoQuantity dto) (quantity ivt),
                      reserved := nullish (dtoReserved dto) (reserved ivt),
                      available := nullish (dtoQuantity dto) (quantity ivt)
                                     - nullish (dtoReserved dto) (reserved ivt),
                      lowStockThreshold := nullish (dtoLowStockThreshold dto) (lowStockThreshold ivt),
                      isTracked := nullish (dtoIsTracked dto) (isTracked ivt) \<rparr>)"
proof -
  let ?q = "nullish (dtoQuantity dto) (quantity ivt)"
  let ?r = "nullish (dtoReserved dto) (reserved ivt)"
  let ?d = "\<lparr> dataQuantity = Val ?q, dataReserved = Val ?r, dataAvailable = Val (?q - ?r),
              dataLowStockThreshold = dtoLowStockThreshold dto,
              dataIsTracked = dtoIsTracked dto \<rparr>"
  have v: "validData ?d" using assms(3,4) by (simp add: validData_def)
  from productInventoryUpdate_found [OF assms(1) v]
  obtain rows' where u: "productInventoryUpdate pid ?d (productInventory s) = Inr (applyData ?d ivt, rows')"
    and f: "findUnique pid rows' = Some (applyData ?d ivt)" by blast
  have a: "applyData ?d ivt =
             ivt\<lparr> quantity := ?q, reserved := ?r, available := ?q - ?r,
                  lowStockThreshold := nullish (dtoLowStockThreshold dto) (lowStockThreshold ivt),
                  isTracked := nullish (dtoIsTracked dto) (isTracked ivt) \<rparr>"
    by (simp add: applyData_def nullish_def)
  show ?thesis
    using assms(1,2) u f unfolding a
    by (intro exI [of _ rows'])
       (cases "dtoQuantity dto";
        simp add: updateInventory_def getInventory_found Let_def
          inventoryTransactionCreate_def publishCall_def nullish_def)
qed

lemma reserveInventory_fails:
  assumes "findUnique (reqProductId dto) (productInventory s) = Some ivt"
    and "available ivt < reqQuantity dto"
  shows "reserveInventory dto s =
           (Inl (BadRequestException (insufficientMessage (available ivt) (reqQuantity dto))), s)"
  using assms by (simp add: reserveInventory_def getInventory_found)

lemma reserveInventory_succeeds:
  assumes "findUnique (reqProductId dto) (productInventory s) = Some ivt"
    and "\<not> available ivt < reqQuantity dto"
  shows "\<exists>rows'. reserveInventory dto s =
           (Inr (ivt\<lparr> reserved := reserved ivt + reqQuantity dto,
                      available := available ivt - reqQuantity dto \<rparr>),
            s\<lparr> productInventory := rows',
               inventoryTransaction := inventoryTransaction s @
                 [\<lparr> txProductId = reqProductId dto, txType = RESERVE,
                    txQuantity = - reqQuantity dto, txReason = ''Inventory reservation'',
                    txReference = reqReference dto \<rparr>] \<rparr>)
          \<and> findUnique (reqProductId dto) rows' =
              Some (ivt\<lparr> reserved := reserved ivt + reqQuantity dto,
                      available := available ivt - reqQuantity dto \<rparr>)"
proof -
  let ?d = "\<lparr> dataQuantity = Undefined, dataReserved = Val (reserved ivt + reqQuantity dto),
              dataAvailable = Val (available ivt - reqQuantity dto),
              dataLowStockThreshold = Undefined, dataIsTracked = Undefined \<rparr>"
  have v: "validData ?d" by (simp add: validData_def)
  from productInventoryUpdate_found [OF assms(1) v]
  obtain rows' where
    u: "productInventoryUpdate (reqProductId dto) ?d (productInventory s)
          = Inr (applyData ?d ivt, rows')"
    and f: "findUnique (reqProductId dto) rows' = Some (applyData ?d ivt)" by blast
  have a: "applyData ?d ivt = ivt\<lparr> reserved := reserved ivt + reqQuantity dto,
                      available := available ivt - reqQuantity dto \<rparr>"
    by (simp add: applyData_def nullish_def)
  show ?thesis
    using assms u f unfolding a
    by (intro exI [of _ rows'])
       (simp add: reserveInventory_def getInventory_found inventoryTransactionCreate_def)
qed

lemma releaseInventory_fails:
  assumes "findUnique (reqProductId dto) (productInventory s) = Some ivt"
    and "reserved ivt < reqQuantity dto"
  shows "releaseInventory dto s =
           (Inl (BadRequestException (releaseMessage (reserved ivt) (reqQuantity dto))), s)"
  using assms by (simp add: releaseInventory_def getInventory_found)

lemma releaseInventory_succeeds:
  assumes "findUnique (reqProductId dto) (productInventory s) = Some ivt"
    and "\<not> reserved ivt < reqQuantity dto"
  shows "\<exists>rows'. releaseInventory dto s =
           (Inr (ivt\<lparr> reserved := reserved ivt - reqQuantity dto,
                      available := available ivt + reqQuantity dto \<rparr>),
            s\<lparr> productInventory := rows',
               inventoryTransaction := inventoryTransaction s @
                 [\<lparr> txProductId = reqProductId dto, txType = RELEASE,
                    txQuantity = reqQuantity dto, txReason = ''Inventory release'',
                    txReference = reqReference dto \<rparr>] \<rparr>)
          \<and> findUnique (reqProductId dto) rows' =
              Some (ivt\<lparr> reserved := reserved ivt - reqQuantity dto,
                      available := available ivt + reqQuantity dto \<rparr>)"
proof -
  let ?d = "\<lparr> dataQuantity = Undefined, dataReserved = Val (reserved ivt - reqQuantity dto),
              dataAvailable = Val (available ivt + reqQuantity dto),
              dataLowStockThreshold = Undefined, dataIsTracked = Undefined \<rparr>"
  have v: "validData ?d" by (simp add: validData_def)
  from productInventoryUpdate_found [OF assms(1) v]
  obtain rows' where
    u: "productInventoryUpdate (reqProductId dto) ?d (productInventory s)
          = Inr (applyData ?d ivt, rows')"
    and f: "findUnique (reqProductId dto) rows' = Some (applyData ?d ivt)" by blast
  have a: "applyData ?d ivt = ivt\<lparr> reserved := reserved ivt - reqQuantity dto,
                      available := available ivt + reqQuantity dto \<rparr>"
    by (simp add: applyData_def nullish_def)
  show ?thesis
    using assms u f unfolding a
    by (intro exI [of _ rows'])
       (simp add: releaseInventory_def getInventory_found inventoryTransactionCreate_def)
qed

lemma updateInventory_cases:
  assumes "findUnique pid (productInventory s) = Some ivt"
    and "updateInventory pid dto s = (Inr r, s')"
  shows "\<not> nullish (dtoQuantity dto) (quantity ivt) - nullish (dtoReserved dto) (reserved ivt) < 0"
    and "dtoLowStockThreshold dto \<noteq> Null" and "dtoIsTracked dto \<noteq> Null"
proof -
  show g: "\<not> nullish (dtoQuantity dto) (quantity ivt)
             - nullish (dtoReserved dto) (reserved ivt) < 0"
    using assms updateInventory_fails [OF assms(1), of dto] by auto
  show "dtoLowStockThreshold dto \<noteq> Null"
    using assms(2) updateInventory_refused [OF assms(1) g] by auto
  show "dtoIsTracked dto \<noteq> Null"
    using assms(2) updateInventory_refused [OF assms(1) g] by auto
qed

lemma updateInventory_failure_unchanged:
  assumes "findUnique pid (productInventory s) = Some ivt"
    and "fst (updateInventory pid dto s) = Inl e"
  shows "snd (updateInventory pid dto s) = s"
proof (cases "nullish (dtoQuantity dto) (quantity ivt)
               - nullish (dtoReserved dto) (reserved ivt) < 0")
  case True
  from updateInventory_fails [OF assms(1) True] show ?thesis by simp
next
  case False
  show ?thesis
  proof (cases "dtoLowStockThreshold dto = Null \<or> dtoIsTracked dto = Null")
    case True
    from updateInventory_refused [OF assms(1) False True] show ?thesis by simp
  next
    case False
    with updateInventory_succeeds [OF assms(1) \<open>\<not> _ < 0\<close>, of] assms(2)
    show ?thesis by auto
  qed
qed

lemma reserveInventory_result:
  assumes "findUnique (reqProductId dto) (productInventory s) = Some ivt"
    and "reserveInventory dto s = (Inr r, s')"
  shows "\<not> available ivt < reqQuantity dto"
    and "r = ivt\<lparr> reserved := reserved ivt + reqQuantity dto,
                  available := available ivt - reqQuantity dto \<rparr>"
    and "findUnique (reqProductId dto) (productInventory s') = Some r"
    and "inventoryTransaction s' = inventoryTransaction s @
           [\<lparr> txProductId = reqProductId dto, txType = RESERVE,
              txQuantity = - reqQuantity dto, txReason = ''Inventory reservation'',
              txReference = reqReference dto \<rparr>]"
    and "eventCalls s' = eventCalls s"
proof -
  show g: "\<not> available ivt < reqQuantity dto"
    using assms reserveInventory_fails [OF assms(1)] by auto
  from reserveInventory_succeeds [OF assms(1) g] assms(2)
  show "r = ivt\<lparr> reserved := reserved ivt + reqQuantity dto,
                  available := available ivt - reqQuantity dto \<rparr>"
    and "findUnique (reqProductId dto) (productInventory s') = Some r"
    and "inventoryTransaction s' = inventoryTransaction s @
           [\<lparr> txProductId = reqProductId dto, txType = RESERVE,
              txQuantity = - reqQuantity dto, txReason = ''Inventory reservation'',
              txReference = reqReference dto \<rparr>]"
    and "eventCalls s' = eventCalls s"
    by auto
qed

lemma releaseInventory_result:
  assumes "findUnique (reqProductId dto) (productInventory s) = Some ivt"
    and "releaseInventory dto s = (Inr r, s')"
  shows "\<not> reserved ivt < reqQuantity dto"
    and "r = ivt\<lparr> reserved := reserved ivt - reqQuantity dto,
                  available := available ivt + reqQuantity dto \<rparr>"
    and "findUnique (reqProductId dto) (productInventory s') = Some r"
    and "inventoryTransaction s' = inventoryTransaction s @
           [\<lparr> txProductId = reqProductId dto, txType = RELEASE,
              txQuantity = reqQuantity dto, txReason = ''Inventory release'',
              txReference = reqReference dto \<rparr>]"
    and "eventCalls s' = eventCalls s"
proof -
  show g: "\<not> reserved ivt < reqQuantity dto"
    using assms releaseInventory_fails [OF assms(1)] by auto
  from releaseInventory_succeeds [OF assms(1) g] assms(2)
  show "r = ivt\<lparr> reserved := reserved ivt - reqQuantity dto,
                  available := available ivt + reqQuantity dto \<rparr>"
    and "findUnique (reqProductId dto) (productInventory s') = Some r"
    and "inventoryTransaction s' = inventoryTransaction s @
           [\<lparr> txProductId = reqProductId dto, txType = RELEASE,
              txQuantity = reqQuantity dto, txReason = ''Inventory release'',
              txReference = reqReference dto \<rparr>]"
    and "eventCalls s' = eventCalls s"
    by auto
qed

lemma deductInventory_result:
  assumes "findUnique pid (productInventory s) = Some ivt"
    and "deductInventory pid q ref s = (Inr r, s')"
  shows "\<not> q - min (reserved ivt) q > available ivt"
    and "r = ivt\<lparr> quantity := quantity ivt - q,
                  reserved := reserved ivt - min (reserved ivt) q,
                  available := available ivt - (q - min (reserved ivt) q) \<rparr>"
    and "findUnique pid (productInventory s') = Some r"
    and "inventoryTransaction s' = inventoryTransaction s @
           [\<lparr> txProductId = pid, txType = SALE, txQuantity = - q,
              txReason = ''Inventory deduction for order'', txReference = ref \<rparr>]"
proof -
  show g: "\<not> q - min (reserved ivt) q > available ivt"
    using assms deductInventory_fails [OF assms(1)] by auto
  from deductInventory_succeeds [OF assms(1) g, of ref] assms(2)
  show "r = ivt\<lparr> quantity := quantity ivt - q,
                  reserved := reserved ivt - min (reserved ivt) q,
                  available := available ivt - (q - min (reserved ivt) q) \<rparr>"
    and "findUnique pid (productInventory s') = Some r"
    and "inventoryTransaction s' = inventoryTransaction s @
           [\<lparr> txProductId = pid, txType = SALE, txQuantity = - q,
              txReason = ''Inventory deduction for order'', txReference = ref \<rparr>]"
    by auto
qed

lemma updateInventory_result:
  assumes "findUnique pid (productInventory s) = Some ivt"
    and "updateInventory pid dto s = (Inr r, s')"
  shows "r = ivt\<lparr> quantity := nullish (dtoQuantity dto) (quantity ivt),
                  reserved := nullish (dtoReserved dto) (reserved ivt),
                  available := nullish (dtoQuantity dto) (quantity ivt)
                                 - nullish (dtoReserved dto) (reserved ivt),
                  lowStockThreshold := nullish (dtoLowStockThreshold dto) (lowStockThreshold ivt),
                  isTracked := nullish (dtoIsTracked dto) (isTracked ivt) \<rparr>"
    and "findUnique pid (productInventory s') = Some r"
    and "inventoryTransaction s' = inventoryTransaction s @
           (case dtoQuantity dto of
              Undefined \<Rightarrow> []
            | Null \<Rightarrow>
                [\<lparr> txProductId = pid,
                   txType = (if 0 > quantity ivt then RESTOCK else ADJUSTMENT),
                   txQuantity = 0 - quantity ivt,
                   txReason = ''Manual inventory update'', txReference = None \<rparr>]
            | Val q \<Rightarrow>
                if q \<noteq> quantity ivt
                then [\<lparr> txProductId = pid,
                        txType = (if q > quantity ivt then RESTOCK else ADJUSTMENT),
                        txQuantity = q - quantity ivt,
                        txReason = ''Manual inventory update'', txReference = None \<rparr>]
                else [])"
    and "eventCalls s' = eventCalls s @
           InventoryUpdated pid (quantity ivt) (nullish (dtoQuantity dto) (quantity ivt))
             (nullish (dtoQuantity dto) (quantity ivt) - nullish (dtoReserved dto) (reserved ivt)) #
           (if nullish (dtoQuantity dto) (quantity ivt) - nullish (dtoReserved dto) (reserved ivt)
                 \<le> nullish (dtoLowStockThreshold dto) (lowStockThreshold ivt)
               \<and> nullish (dtoIsTracked dto) (isTracked ivt)
            then [LowStockAlert pid
                    (nullish (dtoQuantity dto) (quantity ivt)
                       - nullish (dtoReserved dto) (reserved ivt))
                    (nullish (dtoLowStockThreshold dto) (lowStockThreshold ivt))]
            else [])"
proof -
  from updateInventory_succeeds [OF assms(1) updateInventory_cases [OF assms]] assms(2)
  show "r = ivt\<lparr> quantity := nullish (dtoQuantity dto) (quantity ivt),
                  reserved := nullish (dtoReserved dto) (reserved ivt),
                  available := nullish (dtoQuantity dto) (quantity ivt)
                                 - nullish (dtoReserved dto) (reserved ivt),
                  lowStockThreshold := nullish (dtoLowStockThreshold dto) (lowStockThreshold ivt),
                  isTracked := nullish (dtoIsTracked dto) (isTracked ivt) \<rparr>"
    and "findUnique pid (productInventory s') = Some r"
    and "inventoryTransaction s' = inventoryTransaction s @
           (case dtoQuantity dto of
              Undefined \<Rightarrow> []
            | Null \<Rightarrow>
                [\<lparr> txProductId = pid,
                   txType = (if 0 > quantity ivt then RESTOCK else ADJUSTMENT),
                   txQuantity = 0 - quantity ivt,
                   txReason = ''Manual inventory update'', txReference = None \<rparr>]
            | Val q \<Rightarrow>
                if q \<noteq> quantity ivt
                then [\<lparr> txProductId = pid,
                        txType = (if q > quantity ivt then RESTOCK else ADJUSTMENT),
                        txQuantity = q - quantity ivt,
                        txReason = ''Manual inventory update'', txReference = None \<rparr>]
                else [])"
    and "eventCalls s' = eventCalls s @
           InventoryUpdated pid (quantity ivt) (nullish (dtoQuantity dto) (quantity ivt))
             (nullish (dtoQuantity dto) (quantity ivt) - nullish (dtoReserved dto) (reserved ivt)) #
           (if nullish (dtoQuantity dto) (quantity ivt) - nullish (dtoReserved dto) (reserved ivt)
                 \<le> nullish (dtoLowStockThreshold dto) (lowStockThreshold ivt)
               \<and> nullish (dtoIsTracked dto) (isTracked ivt)
            then [LowStockAlert pid
                    (nullish (dtoQuantity dto) (quantity ivt)
                       - nullish (dtoReserved dto) (reserved ivt))
                    (nullish (dtoLowStockThreshold dto) (lowStockThreshold ivt))]
            else [])"
    by auto
qed

lemma exampleState_found:
  "findUnique ''p1'' (productInventory exampleState) = Some exampleRow"
  by (simp add: exampleState_def exampleRow_def)

lemmas ledger_defs =
  updateInventory_def reserveInventory_def releaseInventory_def deductInventory_def
  getInventory_def productInventoryUpdate_def validData_def applyData_def nullish_def
  inventoryTransactionCreate_def publishCall_def exampleState_def exampleRow_def Let_def

subsection \<open>Deduction\<close>

text \<open>
  Claim C3. For a product that has an inventory row and any quantity \<open>q\<close>,
  \<^verbatim>\<open>deductInventory\<close> takes \<open>min reserved q\<close> from the reserved pool and the rest from
  the available pool. It fails with "Insufficient inventory", changing nothing, exactly when
  the rest exceeds \<open>available\<close>; otherwise it stores \<open>quantity - q\<close>, \<open>reserved - fromReserved\<close>
  and \<open>available - fromAvailable\<close>. When \<open>q \<le> reserved\<close> the available amount is unchanged;
  when \<open>q > reserved\<close> the reserved amount becomes 0 and the available amount drops by
  \<open>q - reserved\<close>.
\<close>

theorem deductInventory_split:
  assumes "findUnique pid (productInventory s) = Some ivt"
  shows "(q - min (reserved ivt) q > available ivt \<longrightarrow>
            deductInventory pid q ref s = (Inl (BadRequestException [Lit ''Insufficient inventory'']), s))
       \<and> (\<not> q - min (reserved ivt) q > available ivt \<longrightarrow>
            (\<exists>s'. deductInventory pid q ref s =
                     (Inr (ivt\<lparr> quantity := quantity ivt - q,
                                reserved := reserved ivt - min (reserved ivt) q,
                                available := available ivt - (q - min (reserved ivt) q) \<rparr>), s')
                 \<and> findUnique pid (productInventory s') =
                     Some (ivt\<lparr> quantity := quantity ivt - q,
                                reserved := reserved ivt - min (reserved ivt) q,
                                available := available ivt - (q - min (reserved ivt) q) \<rparr>)))
       \<and> (\<forall>r s'. deductInventory pid q ref s = (Inr r, s') \<longrightarrow>
            (q \<le> reserved ivt \<longrightarrow>
               available r = available ivt \<and> reserved r = reserved ivt - q
                 \<and> quantity r = quantity ivt - q)
          \<and> (q > reserved ivt \<longrightarrow>
               reserved r = 0 \<and> available r = available ivt - (q - reserved ivt)
                 \<and> quantity r = quantity ivt - q))"
proof (cases "q - min (reserved ivt) q > available ivt")
  case True
  then show ?thesis
    using deductInventory_fails [OF assms, of q ref] by simp
next
  case False
  from deductInventory_succeeds [OF assms False, of ref]
  obtain rows' where
    d: "deductInventory pid q ref s =
           (Inr (ivt\<lparr> quantity := quantity ivt - q,
                      reserved := reserved ivt - min (reserved ivt) q,
                      available := available ivt - (q - min (reserved ivt) q) \<rparr>),
            s\<lparr> productInventory := rows',
               inventoryTransaction := inventoryTransaction s @
                 [\<lparr> txProductId = pid, txType = SALE, txQuantity = - q,
                    txReason = ''Inventory deduction for order'', txReference = ref \<rparr>],
               eventCalls := eventCalls s @
                 (if available ivt - (q - min (reserved ivt) q) \<le> lowStockThreshold ivt \<and> isTracked ivt
                  then [LowStockAlert pid (available ivt - (q - min (reserved ivt) q)) (lowStockThreshold ivt)]
                  else []) \<rparr>)"
    and f: "findUnique pid rows' =
              Some (ivt\<lparr> quantity := quantity ivt - q,
                      reserved := reserved ivt - min (reserved ivt) q,
                      available := available ivt - (q - min (reserved ivt) q) \<rparr>)"
    by blast
  show ?thesis
    using False f unfolding d by (auto simp: min_def)
qed

theorem deductInventory_split_witness:
  "findUnique ''p1'' (productInventory exampleState) = Some exampleRow
   \<and> deductInventory ''p1'' 96 None exampleState =
       (Inr (exampleRow\<lparr> quantity := 4, reserved := 0, available := 4 \<rparr>),
        snd (deductInventory ''p1'' 96 None exampleState))
   \<and> deductInventory ''p1'' 101 None exampleState =
       (Inl (BadRequestException [Lit ''Insufficient inventory'']), exampleState)"
proof -
  have h: "findUnique ''p1'' (productInventory exampleState) = Some exampleRow"
    by (simp add: exampleState_def exampleRow_def)
  show ?thesis
    using h deductInventory_split [OF h, of 96 None] deductInventory_split [OF h, of 101 None]
    by (auto simp: exampleRow_def)
qed

subsection \<open>Updates\<close>

text \<open>
  Claim C6. For a product that has an inventory row and any subset of the four fields,
  \<^verbatim>\<open>updateInventory\<close> takes each unset field from the stored row and computes
  \<open>newAvailable = newQuantity - newReserved\<close>. When that is negative the call fails with
  "Available quantity cannot be negative" and the whole state (the row, the transaction log,
  the events) is what it was; otherwise, when neither the threshold nor the tracking flag is
  \<^verbatim>\<open>null\<close>, the row returned carries the resolved fields. A call that fails for any
  reason leaves the whole state as it was.
\<close>

theorem updateInventory_rejects_negative_available:
  assumes "findUnique pid (productInventory s) = Some ivt"
  shows "(nullish (dtoQuantity dto) (quantity ivt) - nullish (dtoReserved dto) (reserved ivt) < 0 \<longrightarrow>
            updateInventory pid dto s =
              (Inl (BadRequestException [Lit ''Available quantity cannot be negative'']), s))
       \<and> (\<not> nullish (dtoQuantity dto) (quantity ivt) - nullish (dtoReserved dto) (reserved ivt) < 0
            \<and> dtoLowStockThreshold dto \<noteq> Null \<and> dtoIsTracked dto \<noteq> Null \<longrightarrow>
            fst (updateInventory pid dto s) =
              Inr (ivt\<lparr> quantity := nullish (dtoQuantity dto) (quantity ivt),
                        reserved := nullish (dtoReserved dto) (reserved ivt),
                        available := nullish (dtoQuantity dto) (quantity ivt)
                                       - nullish (dtoReserved dto) (reserved ivt),
                        lowStockThreshold :=
                          nullish (dtoLowStockThreshold dto) (lowStockThreshold ivt),
                        isTracked := nullish (dtoIsTracked dto) (isTracked ivt) \<rparr>))
       \<and> (\<forall>e. fst (updateInventory pid dto s) = Inl e \<longrightarrow> snd (updateInventory pid dto s) = s)"
proof (intro conjI impI allI)
  assume "nullish (dtoQuantity dto) (quantity ivt) - nullish (dtoReserved dto) (reserved ivt) < 0"
  then show "updateInventory pid dto s =
              (Inl (BadRequestException [Lit ''Available quantity cannot be negative'']), s)"
    by (rule updateInventory_fails [OF assms])
next
  assume a: "\<not> nullish (dtoQuantity dto) (quantity ivt)
               - nullish (dtoReserved dto) (reserved ivt) < 0
             \<and> dtoLowStockThreshold dto \<noteq> Null \<and> dtoIsTracked dto \<noteq> Null"
  then have "\<not> nullish (dtoQuantity dto) (quantity ivt)
               - nullish (dtoReserved dto) (reserved ivt) < 0"
    and "dtoLowStockThreshold dto \<noteq> Null" and "dtoIsTracked dto \<noteq> Null"
    by simp_all
  from updateInventory_succeeds [OF assms this]
  show "fst (updateInventory pid dto s) =
              Inr (ivt\<lparr> quantity := nullish (dtoQuantity dto) (quantity ivt),
                        reserved := nullish (dtoReserved dto) (reserved ivt),
                        available := nullish (dtoQuantity dto) (quantity ivt)
                                       - nullish (dtoReserved dto) (reserved ivt),
                        lowStockThreshold :=
                          nullish (dtoLowStockThreshold dto) (lowStockThreshold ivt),
                        isTracked := nullish (dtoIsTracked dto) (isTracked ivt) \<rparr>)"
    by auto
next
  fix e
  assume "fst (updateInventory pid dto s) = Inl e"
  then show "snd (updateInventory pid dto s) = s"
    by (rule updateInventory_failure_unchanged [OF assms])
qed

theorem updateInventory_rejects_negative_available_witness:
  "findUnique ''p1'' (productInventory exampleState) = Some exampleRow
   \<and> updateInventory ''p1''
        \<lparr> dtoQuantity = Undefined, dtoReserved = Val 101, dtoLowStockThreshold = Val 7,
          dtoIsTracked = Val False \<rparr> exampleState =
       (Inl (BadRequestException [Lit ''Available quantity cannot be negative'']), exampleState)
   \<and> fst (updateInventory ''p1''
        \<lparr> dtoQuantity = Null, dtoReserved = Val 40, dtoLowStockThreshold = Undefined,
          dtoIsTracked = Undefined \<rparr> exampleState) =
       Inr (exampleRow\<lparr> reserved := 40, available := 60 \<rparr>)"
proof -
  have h: "findUnique ''p1'' (productInventory exampleState) = Some exampleRow"
    by (simp add: exampleState_def exampleRow_def)
  show ?thesis
    using h
      updateInventory_rejects_negative_available [OF h,
        of "\<lparr> dtoQuantity = Undefined, dtoReserved = Val 101, dtoLowStockThreshold = Val 7,
             dtoIsTracked = Val False \<rparr>"]
      updateInventory_rejects_negative_available [OF h,
        of "\<lparr> dtoQuantity = Null, dtoReserved = Val 40, dtoLowStockThreshold = Undefined,
             dtoIsTracked = Undefined \<rparr>"]
    by (simp add: nullish_def exampleRow_def)
qed

text \<open>
  Claim C10. A successful \<^verbatim>\<open>updateInventory\<close> decides on the low-stock alert from the
  updated row: the new available amount is compared with the threshold and the tracking flag
  of this call when they are supplied, and with the stored ones otherwise.
\<close>

theorem updateInventory_low_stock_decision:
  assumes "findUnique pid (productInventory s) = Some ivt"
    and "updateInventory pid dto s = (Inr r, s')"
  shows "lowStockThreshold r = nullish (dtoLowStockThreshold dto) (lowStockThreshold ivt)
       \<and> isTracked r = nullish (dtoIsTracked dto) (isTracked ivt)
       \<and> available r = nullish (dtoQuantity dto) (quantity ivt)
                          - nullish (dtoReserved dto) (reserved ivt)
       \<and> eventCalls s' = eventCalls s @
           InventoryUpdated pid (quantity ivt) (quantity r) (available r) #
           (if available r \<le> nullish (dtoLowStockThreshold dto) (lowStockThreshold ivt)
               \<and> nullish (dtoIsTracked dto) (isTracked ivt)
            then [LowStockAlert pid (available r)
                    (nullish (dtoLowStockThreshold dto) (lowStockThreshold ivt))]
            else [])"
  using updateInventory_result(1,4) [OF assms] by simp

theorem updateInventory_low_stock_decision_witness:
  "findUnique ''p1'' (productInventory exampleState) = Some exampleRow
   \<and> updateInventory ''p1''
        \<lparr> dtoQuantity = Undefined, dtoReserved = Undefined, dtoLowStockThreshold = Val 100,
          dtoIsTracked = Undefined \<rparr> exampleState =
       (Inr (exampleRow\<lparr> lowStockThreshold := 100 \<rparr>),
        \<lparr> productInventory = [exampleRow\<lparr> lowStockThreshold := 100 \<rparr>],
          inventoryTransaction = [],
          eventCalls = [InventoryUpdated ''p1'' 100 100 100, LowStockAlert ''p1'' 100 100] \<rparr>)
   \<and> updateInventory ''p1''
        \<lparr> dtoQuantity = Val 5, dtoReserved = Undefined, dtoLowStockThreshold = Undefined,
          dtoIsTracked = Val False \<rparr> exampleState =
       (Inr (exampleRow\<lparr> quantity := 5, available := 5, isTracked := False \<rparr>),
        \<lparr> productInventory = [exampleRow\<lparr> quantity := 5, available := 5, isTracked := False \<rparr>],
          inventoryTransaction =
            [\<lparr> txProductId = ''p1'', txType = ADJUSTMENT, txQuantity = - 95,
               txReason = ''Manual inventory update'', txReference = None \<rparr>],
          eventCalls = [InventoryUpdated ''p1'' 100 5 5] \<rparr>)"
proof -
  have a: "updateInventory ''p1''
        \<lparr> dtoQuantity = Undefined, dtoReserved = Undefined, dtoLowStockThreshold = Val 100,
          dtoIsTracked = Undefined \<rparr> exampleState =
       (Inr (exampleRow\<lparr> lowStockThreshold := 100 \<rparr>),
        \<lparr> productInventory = [exampleRow\<lparr> lowStockThreshold := 100 \<rparr>],
          inventoryTransaction = [],
          eventCalls = [InventoryUpdated ''p1'' 100 100 100, LowStockAlert ''p1'' 100 100] \<rparr>)"
    by (simp add: ledger_defs)
  have b: "updateInventory ''p1''
        \<lparr> dtoQuantity = Val 5, dtoReserved = Undefined, dtoLowStockThreshold = Undefined,
          dtoIsTracked = Val False \<rparr> exampleState =
       (Inr (exampleRow\<lparr> quantity := 5, available := 5, isTracked := False \<rparr>),
        \<lparr> productInventory = [exampleRow\<lparr> quantity := 5, available := 5, isTracked := False \<rparr>],
          inventoryTransaction =
            [\<lparr> txProductId = ''p1'', txType = ADJUSTMENT, txQuantity = - 95,
               txReason = ''Manual inventory update'', txReference = None \<rparr>],
          eventCalls = [InventoryUpdated ''p1'' 100 5 5] \<rparr>)"
    by (simp add: ledger_defs)
  show ?thesis
    using updateInventory_low_stock_decision [OF exampleState_found a]
      updateInventory_low_stock_decision [OF exampleState_found b] a b exampleState_found
    by simp
qed

text \<open>
  When the quantity of the call is absent or a number, a successful update appends a
  transaction exactly when the resolved quantity differs from the previous one: RESTOCK when
  it grew, ADJUSTMENT when it shrank, with the difference new minus old as its quantity.
\<close>

lemma updateInventory_transaction_number:
  assumes "findUnique pid (productInventory s) = Some ivt"
    and "updateInventory pid dto s = (Inr r, s')"
    and "dtoQuantity dto \<noteq> Null"
  shows "quantity r = nullish (dtoQuantity dto) (quantity ivt)
       \<and> inventoryTransaction s' = inventoryTransaction s @
           (if quantity r \<noteq> quantity ivt
            then [\<lparr> txProductId = pid,
                    txType = (if quantity r > quantity ivt then RESTOCK else ADJUSTMENT),
                    txQuantity = quantity r - quantity ivt,
                    txReason = ''Manual inventory update'', txReference = None \<rparr>]
            else [])"
  using updateInventory_result(1,3) [OF assms(1,2)] assms(3)
  by (cases "dtoQuantity dto") (auto simp: nullish_def)

text \<open>
  Claim C8 says that a successful \<^verbatim>\<open>updateInventory\<close> appends a transaction if and only if
  the resolved quantity differs from the previous one, with the difference new minus old as
  its quantity. The body \<^verbatim>\<open>{ "quantity": null }\<close> is a call the code does not treat so:
  \<^verbatim>\<open>??\<close> resolves the quantity to the stored 100, so nothing changes, yet \<^verbatim>\<open>null\<close>
  passes the test \<^verbatim>\<open>!== undefined\<close> and an ADJUSTMENT of \<open>0 - 100\<close> is appended.
\<close>

theorem updateInventory_null_quantity_transaction:
  "findUnique ''p1'' (productInventory exampleState) = Some exampleRow
   \<and> updateInventory ''p1''
        \<lparr> dtoQuantity = Null, dtoReserved = Undefined, dtoLowStockThreshold = Undefined,
          dtoIsTracked = Undefined \<rparr> exampleState =
       (Inr exampleRow,
        \<lparr> productInventory = [exampleRow],
          inventoryTransaction =
            [\<lparr> txProductId = ''p1'', txType = ADJUSTMENT, txQuantity = - 100,
               txReason = ''Manual inventory update'', txReference = None \<rparr>],
          eventCalls = [InventoryUpdated ''p1'' 100 100 100] \<rparr>)
   \<and> quantity exampleRow = 100"
  by (simp add: ledger_defs)

subsection \<open>Low-stock listing\<close>

text \<open>
  Claim C5. With an explicit threshold, \<^verbatim>\<open>getLowStockProducts\<close> returns exactly the
  tracked rows whose available amount is at most the threshold and at most the row's own
  \<^verbatim>\<open>lowStockThreshold\<close>; without one it returns exactly the tracked rows whose available
  amount is at most their own threshold. No row above its own threshold is ever returned.
\<close>

theorem getLowStockProducts_rows:
  "mset (getLowStockProducts (Some t) s) =
     filter_mset (\<lambda>r. isTracked r \<and> available r \<le> min t (lowStockThreshold r))
       (mset (productInventory s))
   \<and> mset (getLowStockProducts None s) =
       filter_mset (\<lambda>r. isTracked r \<and> available r \<le> lowStockThreshold r)
         (mset (productInventory s))
   \<and> filter (\<lambda>r. available r > lowStockThreshold r) (getLowStockProducts threshold s) = []"
proof (intro conjI)
  show "mset (getLowStockProducts (Some t) s) =
     filter_mset (\<lambda>r. isTracked r \<and> available r \<le> min t (lowStockThreshold r))
       (mset (productInventory s))"
    unfolding getLowStockProducts_def orElse_def Let_def
    by (simp add: filter_filter_mset)
  show "mset (getLowStockProducts None s) =
       filter_mset (\<lambda>r. isTracked r \<and> available r \<le> lowStockThreshold r)
         (mset (productInventory s))"
    unfolding getLowStockProducts_def orElse_def Let_def
    by (simp add: filter_filter_mset)
  show "filter (\<lambda>r. available r > lowStockThreshold r) (getLowStockProducts threshold s) = []"
    by (auto simp: getLowStockProducts_def Let_def filter_empty_conv)
qed

theorem getLowStockProducts_rows_witness:
  "getLowStockProducts (Some 5)
     \<lparr> productInventory =
         [exampleRow\<lparr> productId := ''a'', available := 8, lowStockThreshold := 10 \<rparr>,
          exampleRow\<lparr> productId := ''b'', available := 4, lowStockThreshold := 3 \<rparr>,
          exampleRow\<lparr> productId := ''c'', available := 2, lowStockThreshold := 9 \<rparr>],
       inventoryTransaction = [], eventCalls = [] \<rparr>
   = [exampleRow\<lparr> productId := ''c'', available := 2, lowStockThreshold := 9 \<rparr>]
   \<and> mset (getLowStockProducts (Some 5)
     \<lparr> productInventory =
         [exampleRow\<lparr> productId := ''a'', available := 8, lowStockThreshold := 10 \<rparr>,
          exampleRow\<lparr> productId := ''b'', available := 4, lowStockThreshold := 3 \<rparr>,
          exampleRow\<lparr> productId := ''c'', available := 2, lowStockThreshold := 9 \<rparr>],
       inventoryTransaction = [], eventCalls = [] \<rparr>)
   = {# exampleRow\<lparr> productId := ''c'', available := 2, lowStockThreshold := 9 \<rparr> #}"
  using getLowStockProducts_rows [of 5
     "\<lparr> productInventory =
         [exampleRow\<lparr> productId := ''a'', available := 8, lowStockThreshold := 10 \<rparr>,
          exampleRow\<lparr> productId := ''b'', available := 4, lowStockThreshold := 3 \<rparr>,
          exampleRow\<lparr> productId := ''c'', available := 2, lowStockThreshold := 9 \<rparr>],
       inventoryTransaction = [], eventCalls = [] \<rparr>" None]
  by (simp add: getLowStockProducts_def orElse_def exampleRow_def)

subsection \<open>Reservation\<close>

text \<open>
  Claim C2, amended. For a product that has an inventory row, \<^verbatim>\<open>reserveInventory\<close> of a
  quantity that is not negative succeeds exactly when the quantity is at most \<open>available\<close>;
  a quantity of 0 is accepted. Whenever \<open>available < quantity\<close> it fails with a bad request
  whose message gives the available and the requested amounts, and the state is what it was.
\<close>

theorem reserveInventory_precondition:
  assumes "findUnique (reqProductId dto) (productInventory s) = Some ivt"
  shows "(available ivt < reqQuantity dto \<longrightarrow>
            reserveInventory dto s =
              (Inl (BadRequestException
                      [Lit ''Insufficient inventory. Available: '', Num (available ivt),
                       Lit '', Requested: '', Num (reqQuantity dto)]), s))
       \<and> (0 \<le> reqQuantity dto \<and> reqQuantity dto \<le> available ivt \<longrightarrow>
            (\<exists>s'. reserveInventory dto s =
                     (Inr (ivt\<lparr> reserved := reserved ivt + reqQuantity dto,
                                available := available ivt - reqQuantity dto \<rparr>), s')))"
proof (intro conjI impI)
  assume "available ivt < reqQuantity dto"
  from reserveInventory_fails [OF assms this]
  show "reserveInventory dto s =
              (Inl (BadRequestException
                      [Lit ''Insufficient inventory. Available: '', Num (available ivt),
                       Lit '', Requested: '', Num (reqQuantity dto)]), s)"
    by (simp add: insufficientMessage_def)
next
  assume "0 \<le> reqQuantity dto \<and> reqQuantity dto \<le> available ivt"
  then have "\<not> available ivt < reqQuantity dto" by simp
  from reserveInventory_succeeds [OF assms this]
  show "\<exists>s'. reserveInventory dto s =
                     (Inr (ivt\<lparr> reserved := reserved ivt + reqQuantity dto,
                                available := available ivt - reqQuantity dto \<rparr>), s')"
    by blast
qed

theorem reserveInventory_precondition_witness:
  "findUnique ''p1'' (productInventory exampleState) = Some exampleRow
   \<and> reserveInventory \<lparr> reqProductId = ''p1'', reqQuantity = 101, reqReference = None \<rparr>
        exampleState =
       (Inl (BadRequestException
               [Lit ''Insufficient inventory. Available: '', Num 100,
                Lit '', Requested: '', Num 101]),
        exampleState)
   \<and> fst (reserveInventory \<lparr> reqProductId = ''p1'', reqQuantity = 95, reqReference = None \<rparr>
        exampleState) = Inr (exampleRow\<lparr> reserved := 95, available := 5 \<rparr>)"
proof -
  have h: "findUnique
      (reqProductId \<lparr> reqProductId = ''p1'', reqQuantity = q, reqReference = None \<rparr>)
      (productInventory exampleState) = Some exampleRow" for q
    by (simp add: exampleState_found)
  show ?thesis
    using exampleState_found
      reserveInventory_precondition [OF h [of 101]]
      reserveInventory_precondition [OF h [of 95]]
    by (auto simp: exampleRow_def)
qed

text \<open>
  Claim C2 as stated requires the quantity to be positive. Reserving 0 units succeeds on the
  concrete ledger: the row is returned as it is and a RESERVE transaction of 0 is appended.
\<close>

theorem reserveInventory_zero_counterexample:
  "\<not> (0::int) < 0
   \<and> reserveInventory \<lparr> reqProductId = ''p1'', reqQuantity = 0, reqReference = None \<rparr>
        exampleState =
       (Inr exampleRow,
        exampleState\<lparr> inventoryTransaction :=
          [\<lparr> txProductId = ''p1'', txType = RESERVE, txQuantity = 0,
             txReason = ''Inventory reservation'', txReference = None \<rparr>] \<rparr>)"
  by (simp add: ledger_defs)

text \<open>
  Claim C7. On a row of the data model (\<open>reserved\<close> is not negative) and for any
  \<open>q \<le> available\<close>, \<^verbatim>\<open>reserveInventory\<close> of \<open>q\<close> followed by \<^verbatim>\<open>releaseInventory\<close> of
  \<open>q\<close> both succeed, the quantity on hand is the same after the reservation, and the release
  returns and stores the row as it was before the reservation: \<open>reserved\<close> and \<open>available\<close>
  are restored and the quantity on hand never changes.
\<close>

theorem reserve_release_inverse:
  assumes "findUnique pid (productInventory s) = Some ivt"
    and "q \<le> available ivt"
    and "0 \<le> reserved ivt"
  shows "\<exists>r1 s1 s2.
           reserveInventory \<lparr> reqProductId = pid, reqQuantity = q, reqReference = ref1 \<rparr> s
             = (Inr r1, s1)
         \<and> quantity r1 = quantity ivt
         \<and> releaseInventory \<lparr> reqProductId = pid, reqQuantity = q, reqReference = ref2 \<rparr> s1
             = (Inr ivt, s2)
         \<and> findUnique pid (productInventory s2) = Some ivt"
proof -
  let ?dto1 = "\<lparr> reqProductId = pid, reqQuantity = q, reqReference = ref1 \<rparr>"
  let ?dto2 = "\<lparr> reqProductId = pid, reqQuantity = q, reqReference = ref2 \<rparr>"
  let ?r1 = "ivt\<lparr> reserved := reserved ivt + q, available := available ivt - q \<rparr>"
  have f0: "findUnique (reqProductId ?dto1) (productInventory s) = Some ivt"
    using assms(1) by simp
  have g0: "\<not> available ivt < reqQuantity ?dto1"
    using assms(2) by simp
  from reserveInventory_succeeds [OF f0 g0]
  obtain s1 where a: "reserveInventory ?dto1 s = (Inr ?r1, s1)"
    and f1: "findUnique pid (productInventory s1) = Some ?r1"
    by auto
  have f1': "findUnique (reqProductId ?dto2) (productInventory s1) = Some ?r1"
    using f1 by simp
  have g1: "\<not> reserved ?r1 < reqQuantity ?dto2"
    using assms(3) by simp
  from releaseInventory_succeeds [OF f1' g1]
  obtain s2 where b: "releaseInventory ?dto2 s1 = (Inr ivt, s2)"
    and f2: "findUnique pid (productInventory s2) = Some ivt"
    by auto
  from a b f2 show ?thesis by auto
qed

theorem reserve_release_inverse_witness:
  "findUnique ''p1'' (productInventory exampleState) = Some exampleRow
   \<and> (95::int) \<le> available exampleRow \<and> 0 \<le> reserved exampleRow
   \<and> (\<exists>r1 s1 s2.
         reserveInventory \<lparr> reqProductId = ''p1'', reqQuantity = 95, reqReference = None \<rparr>
           exampleState = (Inr r1, s1)
       \<and> quantity r1 = quantity exampleRow
       \<and> releaseInventory \<lparr> reqProductId = ''p1'', reqQuantity = 95, reqReference = None \<rparr> s1
           = (Inr exampleRow, s2)
       \<and> findUnique ''p1'' (productInventory s2) = Some exampleRow)"
proof -
  have a: "(95::int) \<le> available exampleRow" and b: "0 \<le> reserved exampleRow"
    by (simp_all add: exampleRow_def)
  show ?thesis
    using exampleState_found a b
      reserve_release_inverse [OF exampleState_found a b, of None None]
    by simp
qed

subsection \<open>Transaction rows\<close>

text \<open>
  Claim C9, amended. A successful reservation, release or deduction appends exactly one
  transaction row. A successful update appends exactly one row when the quantity on hand
  changes, and none when it does not change and the quantity of the call is absent or a
  number; it never appends more than one. Earlier rows are kept as they are.
\<close>

theorem transaction_rows_per_call:
  assumes "findUnique pid (productInventory s) = Some ivt"
  shows "(\<forall>r s'. reserveInventory \<lparr> reqProductId = pid, reqQuantity = q, reqReference = ref \<rparr> s
                   = (Inr r, s') \<longrightarrow>
            (\<exists>t. inventoryTransaction s' = inventoryTransaction s @ [t]))
       \<and> (\<forall>r s'. releaseInventory \<lparr> reqProductId = pid, reqQuantity = q, reqReference = ref \<rparr> s
                   = (Inr r, s') \<longrightarrow>
            (\<exists>t. inventoryTransaction s' = inventoryTransaction s @ [t]))
       \<and> (\<forall>r s'. deductInventory pid q ref s = (Inr r, s') \<longrightarrow>
            (\<exists>t. inventoryTransaction s' = inventoryTransaction s @ [t]))
       \<and> (\<forall>r s'. updateInventory pid dto s = (Inr r, s') \<longrightarrow>
            (quantity r \<noteq> quantity ivt \<longrightarrow>
               (\<exists>t. inventoryTransaction s' = inventoryTransaction s @ [t]))
          \<and> (quantity r = quantity ivt \<and> dtoQuantity dto \<noteq> Null \<longrightarrow>
               inventoryTransaction s' = inventoryTransaction s)
          \<and> (\<exists>ts. inventoryTransaction s' = inventoryTransaction s @ ts \<and> length ts \<le> 1))"
proof (intro conjI allI impI)
  fix r s'
  assume "reserveInventory \<lparr> reqProductId = pid, reqQuantity = q, reqReference = ref \<rparr> s
            = (Inr r, s')"
  from reserveInventory_result(4) [OF _ this] assms
  show "\<exists>t. inventoryTransaction s' = inventoryTransaction s @ [t]" by simp
next
  fix r s'
  assume "releaseInventory \<lparr> reqProductId = pid, reqQuantity = q, reqReference = ref \<rparr> s
            = (Inr r, s')"
  from releaseInventory_result(4) [OF _ this] assms
  show "\<exists>t. inventoryTransaction s' = inventoryTransaction s @ [t]" by simp
next
  fix r s'
  assume "deductInventory pid q ref s = (Inr r, s')"
  from deductInventory_result(4) [OF assms this]
  show "\<exists>t. inventoryTransaction s' = inventoryTransaction s @ [t]" by simp
next
  fix r s'
  assume u: "updateInventory pid dto s = (Inr r, s')" and "quantity r \<noteq> quantity ivt"
  with updateInventory_result(1,3) [OF assms u]
  show "\<exists>t. inventoryTransaction s' = inventoryTransaction s @ [t]"
    by (cases "dtoQuantity dto") (auto simp: nullish_def)
next
  fix r s'
  assume u: "updateInventory pid dto s = (Inr r, s')"
    and "quantity r = quantity ivt \<and> dtoQuantity dto \<noteq> Null"
  with updateInventory_result(1,3) [OF assms u]
  show "inventoryTransaction s' = inventoryTransaction s"
    by (cases "dtoQuantity dto") (auto simp: nullish_def)
next
  fix r s'
  assume u: "updateInventory pid dto s = (Inr r, s')"
  from updateInventory_result(3) [OF assms u]
  show "\<exists>ts. inventoryTransaction s' = inventoryTransaction s @ ts \<and> length ts \<le> 1"
    by (cases "dtoQuantity dto") auto
qed

theorem transaction_rows_per_call_witness:
  "findUnique ''p1'' (productInventory exampleState) = Some exampleRow
   \<and> reserveInventory \<lparr> reqProductId = ''p1'', reqQuantity = 95, reqReference = Some ''order-1'' \<rparr>
        exampleState =
       (Inr (exampleRow\<lparr> reserved := 95, available := 5 \<rparr>),
        \<lparr> productInventory = [exampleRow\<lparr> reserved := 95, available := 5 \<rparr>],
          inventoryTransaction =
            [\<lparr> txProductId = ''p1'', txType = RESERVE, txQuantity = - 95,
               txReason = ''Inventory reservation'', txReference = Some ''order-1'' \<rparr>],
          eventCalls = [] \<rparr>)
   \<and> (\<exists>t. inventoryTransaction
              \<lparr> productInventory = [exampleRow\<lparr> reserved := 95, available := 5 \<rparr>],
                inventoryTransaction =
                  [\<lparr> txProductId = ''p1'', txType = RESERVE, txQuantity = - 95,
                     txReason = ''Inventory reservation'', txReference = Some ''order-1'' \<rparr>],
                eventCalls = [] \<rparr>
            = inventoryTransaction exampleState @ [t])"
proof -
  have a: "reserveInventory
        \<lparr> reqProductId = ''p1'', reqQuantity = 95, reqReference = Some ''order-1'' \<rparr>
        exampleState =
       (Inr (exampleRow\<lparr> reserved := 95, available := 5 \<rparr>),
        \<lparr> productInventory = [exampleRow\<lparr> reserved := 95, available := 5 \<rparr>],
          inventoryTransaction =
            [\<lparr> txProductId = ''p1'', txType = RESERVE, txQuantity = - 95,
               txReason = ''Inventory reservation'', txReference = Some ''order-1'' \<rparr>],
          eventCalls = [] \<rparr>)"
    by (simp add: ledger_defs)
  show ?thesis
    using exampleState_found a
      transaction_rows_per_call [OF exampleState_found, of 95 "Some ''order-1''"]
    by blast
qed

text \<open>
  Claim C9 as stated counts every update that changes the stored row. An update of
  \<open>reserved\<close> alone changes the row and appends no transaction.
\<close>

theorem update_without_transaction_counterexample:
  "updateInventory ''p1''
     \<lparr> dtoQuantity = Undefined, dtoReserved = Val 5, dtoLowStockThreshold = Undefined,
       dtoIsTracked = Undefined \<rparr> exampleState =
     (Inr (exampleRow\<lparr> reserved := 5, available := 95 \<rparr>),
      \<lparr> productInventory = [exampleRow\<lparr> reserved := 5, available := 95 \<rparr>],
        inventoryTransaction = [],
        eventCalls = [InventoryUpdated ''p1'' 100 100 95] \<rparr>)
   \<and> productInventory exampleState \<noteq> [exampleRow\<lparr> reserved := 5, available := 95 \<rparr>]
   \<and> inventoryTransaction exampleState = []"
  by (simp add: ledger_defs)

subsection \<open>The ledger invariant\<close>

text \<open>
  With amounts that are not negative, every call keeps \<open>available = quantity - reserved\<close>
  and the three amounts not negative, whether it succeeds or fails.
\<close>

lemma ledgerCall_step:
  assumes "findUnique pid (productInventory s) = Some ivt"
    and "ledgerInvariant ivt"
    and "nonNegativeCall c"
  shows "\<exists>r. findUnique pid (productInventory (snd (ledgerCall pid c s))) = Some r
            \<and> ledgerInvariant r"
proof (cases c)
  case (UpdateCall dto)
  show ?thesis
  proof (cases "fst (updateInventory pid dto s)")
    case (Inl e)
    from updateInventory_failure_unchanged [OF assms(1) Inl] assms(1,2) UpdateCall
    show ?thesis by simp
  next
    case (Inr r)
    then obtain s' where u: "updateInventory pid dto s = (Inr r, s')"
      by (cases "updateInventory pid dto s") simp
    have "0 \<le> nullish (dtoReserved dto) (reserved ivt)"
      using assms(2,3) UpdateCall
      by (cases "dtoReserved dto") (simp_all add: nullish_def ledgerInvariant_def)
    with updateInventory_cases(1) [OF assms(1) u] updateInventory_result(1,2) [OF assms(1) u]
      u UpdateCall
    show ?thesis by (simp add: ledgerInvariant_def)
  qed
next
  case (ReserveCall q ref)
  let ?dto = "\<lparr> reqProductId = pid, reqQuantity = q, reqReference = ref \<rparr>"
  have f: "findUnique (reqProductId ?dto) (productInventory s) = Some ivt"
    using assms(1) by simp
  show ?thesis
  proof (cases "available ivt < q")
    case True
    then have "available ivt < reqQuantity ?dto" by simp
    from reserveInventory_fails [OF f this] assms(1,2) ReserveCall
    show ?thesis by simp
  next
    case False
    then have g: "\<not> available ivt < reqQuantity ?dto" by simp
    from reserveInventory_succeeds [OF f g] False assms(2,3) ReserveCall
    show ?thesis by (auto simp: ledgerInvariant_def)
  qed
next
  case (ReleaseCall q ref)
  let ?dto = "\<lparr> reqProductId = pid, reqQuantity = q, reqReference = ref \<rparr>"
  have f: "findUnique (reqProductId ?dto) (productInventory s) = Some ivt"
    using assms(1) by simp
  show ?thesis
  proof (cases "reserved ivt < q")
    case True
    then have "reserved ivt < reqQuantity ?dto" by simp
    from releaseInventory_fails [OF f this] assms(1,2) ReleaseCall
    show ?thesis by simp
  next
    case False
    then have g: "\<not> reserved ivt < reqQuantity ?dto" by simp
    from releaseInventory_succeeds [OF f g] False assms(2,3) ReleaseCall
    show ?thesis by (auto simp: ledgerInvariant_def)
  qed
next
  case (DeductCall q ref)
  show ?thesis
  proof (cases "q - min (reserved ivt) q > available ivt")
    case True
    from deductInventory_fails [OF assms(1) True] assms(1,2) DeductCall
    show ?thesis by simp
  next
    case False
    from deductInventory_succeeds [OF assms(1) False, of ref] False assms(2,3) DeductCall
    show ?thesis by (auto simp: ledgerInvariant_def min_def)
  qed
qed

lemma ledgerCalls_invariant:
  assumes "findUnique pid (productInventory s) = Some ivt"
    and "ledgerInvariant ivt"
    and "list_all nonNegativeCall cs"
  shows "\<exists>r. findUnique pid (productInventory (ledgerCalls pid cs s)) = Some r
            \<and> ledgerInvariant r"
  using assms
proof (induction cs arbitrary: s ivt)
  case Nil
  then show ?case by simp
next
  case (Cons c cs)
  from Cons.prems have "nonNegativeCall c" and rest: "list_all nonNegativeCall cs"
    by simp_all
  from ledgerCall_step [OF Cons.prems(1,2) this(1)]
  obtain r where "findUnique pid (productInventory (snd (ledgerCall pid c s))) = Some r"
    and "ledgerInvariant r" by blast
  from Cons.IH [OF this rest] show ?case by simp
qed

text \<open>
  Claim C1 says that after every successful ledger call the row satisfies
  \<open>available = quantity - reserved\<close> with \<open>quantity\<close>, \<open>reserved\<close> and \<open>available\<close> not
  negative. No operation looks at the sign of an amount, and on the concrete ledger, whose
  row satisfies the invariant, three calls succeed and break it: a reservation of \<open>-5\<close>
  stores \<open>reserved = -5\<close>, a release of \<open>-101\<close> stores \<open>available = -1\<close>, and an update to
  quantity \<open>-3\<close> and reserved \<open>-5\<close> stores \<open>quantity = -3\<close>. A deduction of \<open>-1000\<close> is
  accepted as well and adds 1000 units to the quantity on hand and to the reserved amount.
\<close>

theorem negative_amounts_break_ledger_invariant:
  "ledgerInvariant exampleRow
   \<and> findUnique ''p1'' (productInventory exampleState) = Some exampleRow
   \<and> fst (ledgerCall ''p1'' (ReserveCall (- 5) None) exampleState)
       = Inr (exampleRow\<lparr> reserved := - 5, available := 105 \<rparr>)
   \<and> findUnique ''p1'' (productInventory (ledgerCalls ''p1'' [ReserveCall (- 5) None] exampleState))
       = Some (exampleRow\<lparr> reserved := - 5, available := 105 \<rparr>)
   \<and> \<not> 0 \<le> reserved (exampleRow\<lparr> reserved := - 5, available := 105 \<rparr>)
   \<and> fst (ledgerCall ''p1'' (ReleaseCall (- 101) None) exampleState)
       = Inr (exampleRow\<lparr> reserved := 101, available := - 1 \<rparr>)
   \<and> findUnique ''p1'' (productInventory (ledgerCalls ''p1'' [ReleaseCall (- 101) None] exampleState))
       = Some (exampleRow\<lparr> reserved := 101, available := - 1 \<rparr>)
   \<and> \<not> 0 \<le> available (exampleRow\<lparr> reserved := 101, available := - 1 \<rparr>)
   \<and> fst (ledgerCall ''p1''
            (UpdateCall \<lparr> dtoQuantity = Val (- 3), dtoReserved = Val (- 5),
                          dtoLowStockThreshold = Undefined, dtoIsTracked = Undefined \<rparr>)
            exampleState)
       = Inr (exampleRow\<lparr> quantity := - 3, reserved := - 5, available := 2 \<rparr>)
   \<and> \<not> 0 \<le> quantity (exampleRow\<lparr> quantity := - 3, reserved := - 5, available := 2 \<rparr>)
   \<and> fst (ledgerCall ''p1'' (DeductCall (- 1000) None) exampleState)
       = Inr (exampleRow\<lparr> quantity := 1100, reserved := 1000 \<rparr>)"
  by (simp add: ledger_defs ledgerInvariant_def)

subsection \<open>Publishing with retries\<close>

lemma publishEvent_from:
  "retries \<le> maxRetries \<Longrightarrow>
     \<exists>k. retries \<le> k \<and> k \<le> maxRetries
        \<and> publishEvent env retries =
            (attemptSucceeds (env k),
             concat (map (\<lambda>i. [Attempt i, Delay retryDelay]) [retries..<k]) @ [Attempt k])
        \<and> (\<forall>i. retries \<le> i \<and> i < k \<longrightarrow> \<not> attemptSucceeds (env i))
        \<and> (k < maxRetries \<longrightarrow> attemptSucceeds (env k))"
proof (induction env retries rule: publishEvent.induct)
  case (1 env retries)
  show ?case
  proof (cases "attemptSucceeds (env retries)")
    case True
    then have "publishEvent env retries = (True, [Attempt retries])"
      by (subst publishEvent.simps) simp
    with True "1.prems" show ?thesis
      by (intro exI [of _ retries]) auto
  next
    case False
    show ?thesis
    proof (cases "retries < maxRetries")
      case True
      then have "retries + 1 \<le> maxRetries" by simp
      from "1.IH" [OF False True this]
      obtain k where k: "retries + 1 \<le> k" "k \<le> maxRetries"
        and p: "publishEvent env (retries + 1) =
            (attemptSucceeds (env k),
             concat (map (\<lambda>i. [Attempt i, Delay retryDelay]) [retries + 1..<k]) @ [Attempt k])"
        and f: "\<forall>i. retries + 1 \<le> i \<and> i < k \<longrightarrow> \<not> attemptSucceeds (env i)"
        and l: "k < maxRetries \<longrightarrow> attemptSucceeds (env k)"
        by blast
      have u: "[retries..<k] = retries # [retries + 1..<k]"
        using k(1) by (simp add: upt_conv_Cons)
      have e: "publishEvent env retries =
            (attemptSucceeds (env k),
             concat (map (\<lambda>i. [Attempt i, Delay retryDelay]) [retries..<k]) @ [Attempt k])"
        using False True p unfolding u by (subst publishEvent.simps) simp
      have f': "\<forall>i. retries \<le> i \<and> i < k \<longrightarrow> \<not> attemptSucceeds (env i)"
      proof (intro allI impI)
        fix i assume i: "retries \<le> i \<and> i < k"
        show "\<not> attemptSucceeds (env i)"
        proof (cases "i = retries")
          case True
          with False show ?thesis by simp
        next
          case False
          with i f show ?thesis by simp
        qed
      qed
      from k e f' l show ?thesis
        by (intro exI [of _ k]) simp
    next
      case nolonger: False
      with "1.prems" have m: "retries = maxRetries" by simp
      from False nolonger have "publishEvent env retries = (False, [Attempt retries])"
        by (subst publishEvent.simps) simp
      with False m show ?thesis
        by (intro exI [of _ retries]) auto
    qed
  qed
qed

text \<open>
  Claim C4, amended. \<^verbatim>\<open>publishEvent\<close> of the user service always returns a boolean. It
  makes a first attempt and, while attempts fail, up to \<open>maxRetries = 3\<close> retries, each after
  a wait of 5000 ms; it stops at the first attempt that succeeds. After four consecutive
  failures (the first attempt and three retries) it makes no further attempt and returns
  false. \<^verbatim>\<open>publish\<close> of the product service makes at most one attempt, never retries, and
  returns true exactly when it is connected, has a channel and the channel call does not
  throw.
\<close>

theorem publishEvent_bounded_retry:
  "maxRetries = 3 \<and> retryDelay = 5000
   \<and> (\<exists>k\<le>maxRetries.
         publishEvent env 0 =
           (attemptSucceeds (env k),
            concat (map (\<lambda>i. [Attempt i, Delay retryDelay]) [0..<k]) @ [Attempt k])
       \<and> (\<forall>i<k. \<not> attemptSucceeds (env i))
       \<and> (k < maxRetries \<longrightarrow> attemptSucceeds (env k)))
   \<and> ((\<forall>n\<le>maxRetries. \<not> attemptSucceeds (env n)) \<longrightarrow>
         publishEvent env 0 =
           (False, [Attempt 0, Delay 5000, Attempt 1, Delay 5000, Attempt 2, Delay 5000,
                    Attempt 3]))
   \<and> length (snd (publish isConnected hasChannel outcome)) \<le> 1
   \<and> (fst (publish isConnected hasChannel outcome)
        \<longleftrightarrow> isConnected \<and> hasChannel \<and> outcome \<noteq> Threw)"
proof (intro conjI)
  show "maxRetries = 3" by (simp add: maxRetries_def)
  show "retryDelay = 5000" by (simp add: retryDelay_def)
  from publishEvent_from [of 0 env]
  obtain k where k: "k \<le> maxRetries"
    and p: "publishEvent env 0 =
           (attemptSucceeds (env k),
            concat (map (\<lambda>i. [Attempt i, Delay retryDelay]) [0..<k]) @ [Attempt k])"
    and f: "\<forall>i<k. \<not> attemptSucceeds (env i)"
    and l: "k < maxRetries \<longrightarrow> attemptSucceeds (env k)"
    by auto
  then show "\<exists>k\<le>maxRetries.
         publishEvent env 0 =
           (attemptSucceeds (env k),
            concat (map (\<lambda>i. [Attempt i, Delay retryDelay]) [0..<k]) @ [Attempt k])
       \<and> (\<forall>i<k. \<not> attemptSucceeds (env i))
       \<and> (k < maxRetries \<longrightarrow> attemptSucceeds (env k))"
    by blast
  show "(\<forall>n\<le>maxRetries. \<not> attemptSucceeds (env n)) \<longrightarrow>
         publishEvent env 0 =
           (False, [Attempt 0, Delay 5000, Attempt 1, Delay 5000, Attempt 2, Delay 5000,
                    Attempt 3])"
  proof
    assume a: "\<forall>n\<le>maxRetries. \<not> attemptSucceeds (env n)"
    with k l have "k = maxRetries" by (cases "k < maxRetries") auto
    then have k3: "k = 3" by (simp add: maxRetries_def)
    have "[0..<3] = [0, 1, 2::nat]" by (simp add: upt_rec)
    with p a k show "publishEvent env 0 =
           (False, [Attempt 0, Delay 5000, Attempt 1, Delay 5000, Attempt 2, Delay 5000,
                    Attempt 3])"
      unfolding k3 by (simp add: retryDelay_def)
  qed
  show "length (snd (publish isConnected hasChannel outcome)) \<le> 1"
    by (cases outcome) (simp_all add: publish_def)
  show "fst (publish isConnected hasChannel outcome)
        \<longleftrightarrow> isConnected \<and> hasChannel \<and> outcome \<noteq> Threw"
    by (cases outcome) (auto simp: publish_def)
qed

theorem publishEvent_bounded_retry_witness:
  "\<not> attemptSucceeds (ChannelPublish False)
   \<and> publishEvent (\<lambda>n. ChannelPublish False) 0 =
       (False, [Attempt 0, Delay 5000, Attempt 1, Delay 5000, Attempt 2, Delay 5000, Attempt 3])"
  using publishEvent_bounded_retry [of "\<lambda>n. ChannelPublish False"]
  by (simp add: attemptSucceeds_def)

text \<open>
  Claim C4 as stated stops after the third consecutive failure. When the first three
  attempts throw and the fourth is accepted, the call makes the fourth attempt and returns
  true; when every attempt throws, it returns false only after the fourth.
\<close>

theorem publishEvent_fourth_attempt_counterexample:
  "\<not> attemptSucceeds ThrewError
   \<and> publishEvent (\<lambda>n. if n < 3 then ThrewError else ChannelPublish True) 0 =
       (True, [Attempt 0, Delay 5000, Attempt 1, Delay 5000, Attempt 2, Delay 5000, Attempt 3])
   \<and> publishEvent (\<lambda>n. ThrewError) 0 =
       (False, [Attempt 0, Delay 5000, Attempt 1, Delay 5000, Attempt 2, Delay 5000, Attempt 3])
   \<and> publish True True Threw = (False, [Attempt 0])"
  by (simp add: attemptSucceeds_def maxRetries_def retryDelay_def publish_def)

end
